theory Spec2Isabelle
  imports Main
begin

section \<open>Strings: the fragment of JavaScript's string API the plugin uses\<close>

text \<open>
  A JavaScript string is modelled as a \<^typ>\<open>string\<close>, one \<^typ>\<open>char\<close> per code unit.
  \<^verbatim>\<open>s.startsWith(p)\<close> and \<^verbatim>\<open>s.slice(n)\<close> (for a non-negative literal \<open>n\<close>) are
  total on every string.
\<close>

definition startsWith :: "string \<Rightarrow> string \<Rightarrow> bool" where
  "startsWith s p = (take (length p) s = p)"

definition slice :: "string \<Rightarrow> nat \<Rightarrow> string" where
  "slice s n = drop n s"

text \<open>
  The regular expressions of the plugin carry the \<^verbatim>\<open>i\<close> flag and no \<^verbatim>\<open>u\<close> flag.
  Such a pattern compares characters after canonicalisation, which upper-cases a
  character and never maps a character outside ASCII to one inside it. Every pattern
  character of the plugin is ASCII, so canonicalisation is needed on ASCII letters only.
\<close>

definition canonicalize :: "char \<Rightarrow> char" where
  "canonicalize c =
     (case map_of (zip ''abcdefghijklmnopqrstuvwxyz'' ''ABCDEFGHIJKLMNOPQRSTUVWXYZ'') c of
        Some u \<Rightarrow> u
      | None \<Rightarrow> c)"

text \<open>\<^verbatim>\<open>/^qqbot:/i\<close>: the string begins with the six characters, in any letter case.\<close>

definition matchesChannelPrefix :: "string \<Rightarrow> bool" where
  "matchesChannelPrefix s =
     (6 \<le> length s \<and> map canonicalize (take 6 s) = map canonicalize ''qqbot:'')"

text \<open>\<^verbatim>\<open>s.replace(/^qqbot:/i, "")\<close>: the anchored match, when there is one, is removed once.\<close>

definition stripChannelPrefix :: "string \<Rightarrow> string" where
  "stripChannelPrefix s = (if matchesChannelPrefix s then drop 6 s else s)"

text \<open>\<^verbatim>\<open>/^[A-F0-9]{32}$/i\<close>: exactly thirty-two characters, each a hexadecimal digit.\<close>

definition isHexDigit :: "char \<Rightarrow> bool" where
  "isHexDigit c = (canonicalize c \<in> set ''ABCDEF0123456789'')"

definition isHex32 :: "string \<Rightarrow> bool" where
  "isHex32 s = (length s = 32 \<and> list_all isHexDigit s)"

section \<open>Target addresses\<close>

datatype targetType = C2C | Group | Channel

record target =
  type :: targetType
  id' :: string

text \<open>
  \<^verbatim>\<open>parseTarget\<close> of the outbound module. It has no failing branch. The source's
  local variable \<^verbatim>\<open>id\<close> is \<open>s\<close> here, and the field \<^verbatim>\<open>id\<close> is \<open>id'\<close>.
\<close>

definition parseTarget :: "string \<Rightarrow> target" where
  "parseTarget to =
     (let s = stripChannelPrefix to in
      if startsWith s ''c2c:'' then \<lparr>type = C2C, id' = slice s 4\<rparr>
      else if startsWith s ''group:'' then \<lparr>type = Group, id' = slice s 6\<rparr>
      else if startsWith s ''channel:'' then \<lparr>type = Channel, id' = slice s 8\<rparr>
      else \<lparr>type = C2C, id' = s\<rparr>)"

text \<open>\<^verbatim>\<open>messaging.targetResolver.looksLikeId\<close> of the channel plugin.\<close>

definition looksLikeId :: "string \<Rightarrow> bool" where
  "looksLikeId raw =
     (let normalized = stripChannelPrefix raw in
      if startsWith normalized ''c2c:'' \<or> startsWith normalized ''group:''
         \<or> startsWith normalized ''channel:'' then True
      else if isHex32 normalized then True
      else False)"

section \<open>Truthiness and optional values\<close>

text \<open>
  An optional string (\<^verbatim>\<open>string | null | undefined\<close>) is a \<^typ>\<open>string option\<close>. The
  source tests such values with \<^verbatim>\<open>!x\<close> and \<^verbatim>\<open>x && y\<close>: an absent value and the empty
  string are both falsy. \<^verbatim>\<open>a?.f\<close> is \<^const>\<open>Option.bind\<close>, and \<^verbatim>\<open>x ?? d\<close> is
  \<open>nullish\<close>.
\<close>

fun truthy :: "string option \<Rightarrow> bool" where
  "truthy None = False"
| "truthy (Some s) = (s \<noteq> [])"

fun nullish :: "'a option \<Rightarrow> 'a \<Rightarrow> 'a" where
  "nullish None d = d"
| "nullish (Some x) d = x"

section \<open>Accounts, outcomes and the platform client\<close>

record QQBotAccount =
  accountId :: string
  name :: "string option"
  enabled :: bool
  appId :: "string option"
  clientSecret :: "string option"
  secretSource :: "string option"

record OutboundContext =
  to :: string
  text' :: string
  ctx_accountId :: "string option"
  replyToId :: "string option"
  account :: QQBotAccount

text \<open>
  The timestamp of a send result (\<^verbatim>\<open>string | number\<close>) is only passed through, so its
  type is a parameter \<open>'t\<close>.
\<close>

record 't OutboundResult =
  channel :: string
  messageId :: "string option"
  timestamp :: "'t option"
  error :: "string option"

text \<open>
  What a \<^verbatim>\<open>throw\<close> carries, told apart by what the expression of both catch blocks,
  \<^verbatim>\<open>err instanceof Error ? err.message : String(err)\<close>, makes of it. The catch blocks
  take whatever was thrown and do not guard that expression.
  \<^item> \<open>ErrorInstance\<close>: an instance of \<^verbatim>\<open>Error\<close> with its \<^verbatim>\<open>message\<close> property, a string,
    or \<open>None\<close> when the property is \<^verbatim>\<open>undefined\<close> or \<^verbatim>\<open>null\<close>. (A message of any other
    type has no place in the outcome, whose error is a string or absent, and is left
    out.)
  \<^item> \<open>OtherValue\<close>: any other value that \<^verbatim>\<open>String(err)\<close> renders, with the rendering.
  \<^item> \<open>Unrenderable\<close>: a value at which the expression itself throws, with what it
    throws: \<^verbatim>\<open>String(Object.create(null))\<close> throws a \<^verbatim>\<open>TypeError\<close>, a \<^verbatim>\<open>toString\<close> or a
    getter of \<^verbatim>\<open>message\<close> may throw anything.
  \<open>errorMessage\<close> is the expression: it yields the message or throws.
\<close>

datatype thrown = ErrorInstance "string option" | OtherValue string | Unrenderable thrown

fun errorMessage :: "thrown \<Rightarrow> thrown + string option" where
  "errorMessage (ErrorInstance message) = Inr message"
| "errorMessage (OtherValue rendered) = Inr (Some rendered)"
| "errorMessage (Unrenderable raised) = Inl raised"

text \<open>
  Modelled from the spec: the platform client (\<^verbatim>\<open>api.js\<close>) is not among the source
  files. The spec gives its interface: \<^verbatim>\<open>getAccessToken(appId, secret) -> token\<close>,
  the passive operations \<^verbatim>\<open>sendC2CMessage / sendGroupMessage /
  sendChannelMessage(token, id, text, replyToId?) -> {id, timestamp}\<close> and the proactive
  operations \<^verbatim>\<open>sendProactiveC2CMessage / sendProactiveGroupMessage(token, id, text) ->
  {id, timestamp}\<close>, all fallible remote calls with no further structure assumed. The
  client is therefore a parameter: each operation reads and changes a state \<open>'w\<close> of
  the outside world and either throws or returns.
\<close>

record 't SendResult =
  result_id :: string
  result_timestamp :: 't

record ('w, 't) PlatformClient =
  getAccessToken :: "string \<Rightarrow> string \<Rightarrow> 'w \<Rightarrow> (thrown + string) \<times> 'w"
  sendC2CMessage ::
    "string \<Rightarrow> string \<Rightarrow> string \<Rightarrow> string option \<Rightarrow> 'w \<Rightarrow> (thrown + 't SendResult) \<times> 'w"
  sendGroupMessage ::
    "string \<Rightarrow> string \<Rightarrow> string \<Rightarrow> string option \<Rightarrow> 'w \<Rightarrow> (thrown + 't SendResult) \<times> 'w"
  sendChannelMessage ::
    "string \<Rightarrow> string \<Rightarrow> string \<Rightarrow> string option \<Rightarrow> 'w \<Rightarrow> (thrown + 't SendResult) \<times> 'w"
  sendProactiveC2CMessage ::
    "string \<Rightarrow> string \<Rightarrow> string \<Rightarrow> 'w \<Rightarrow> (thrown + 't SendResult) \<times> 'w"
  sendProactiveGroupMessage ::
    "string \<Rightarrow> string \<Rightarrow> string \<Rightarrow> 'w \<Rightarrow> (thrown + 't SendResult) \<times> 'w"

section \<open>Asynchronous calls with a log of the network activity\<close>

text \<open>
  Every call of a client operation is logged with its arguments and with what came
  back, so that "which operation was invoked" and "no network activity" are statements
  about the log.
\<close>

datatype call =
    GetAccessToken string string
  | SendC2CMessage string string string "string option"
  | SendGroupMessage string string string "string option"
  | SendChannelMessage string string string "string option"
  | SendProactiveC2CMessage string string string
  | SendProactiveGroupMessage string string string

datatype 't reply = Token string | Sent "'t SendResult"

type_synonym 't event = "call \<times> (thrown + 't reply)"

type_synonym ('w, 't) world = "'w \<times> 't event list"

text \<open>
  A promise, run to its end from a world: it is rejected with what was thrown
  (\<open>Inl\<close>) or fulfilled with a value (\<open>Inr\<close>), and leaves a world behind.
\<close>

type_synonym ('w, 't, 'a) promise = "('w, 't) world \<Rightarrow> (thrown + 'a) \<times> ('w, 't) world"

definition resolve :: "'a \<Rightarrow> ('w, 't, 'a) promise" where
  "resolve x s = (Inr x, s)"

definition await :: "('w, 't, 'a) promise \<Rightarrow> ('a \<Rightarrow> ('w, 't, 'b) promise) \<Rightarrow> ('w, 't, 'b) promise" where
  "await m f s = (case m s of (Inl err, s') \<Rightarrow> (Inl err, s') | (Inr x, s') \<Rightarrow> f x s')"

definition tryCatch :: "('w, 't, 'a) promise \<Rightarrow> (thrown \<Rightarrow> ('w, 't, 'a) promise) \<Rightarrow> ('w, 't, 'a) promise" where
  "tryCatch body handler s =
     (case body s of (Inl err, s') \<Rightarrow> handler err s' | (Inr x, s') \<Rightarrow> (Inr x, s'))"

definition request ::
  "call \<Rightarrow> ('a \<Rightarrow> 't reply) \<Rightarrow> ('w \<Rightarrow> (thrown + 'a) \<times> 'w) \<Rightarrow> ('w, 't, 'a) promise" where
  "request c wrap operation s =
     (case operation (fst s) of (r, w') \<Rightarrow> (r, (w', snd s @ [(c, map_sum (\<lambda>e. e) wrap r)])))"

text \<open>
  An expression of an asynchronous function's body that yields a value or throws and
  leaves the world alone. Thrown outside a \<^verbatim>\<open>try\<close> block, or inside a \<^verbatim>\<open>catch\<close> block,
  it rejects the promise of the function.
\<close>

definition evaluate :: "thrown + 'a \<Rightarrow> ('w, 't, 'a) promise" where
  "evaluate v s = (v, s)"
section \<open>The outbound dispatcher\<close>

definition notConfigured :: "'t OutboundResult" where
  "notConfigured =
     \<lparr>channel = ''qqbot'', messageId = None, timestamp = None,
      error = Some ''QQBot not configured (missing appId or clientSecret)''\<rparr>"

definition sent :: "'t SendResult \<Rightarrow> 't OutboundResult" where
  "sent result =
     \<lparr>channel = ''qqbot'', messageId = Some (result_id result),
      timestamp = Some (result_timestamp result), error = None\<rparr>"

definition failed :: "string option \<Rightarrow> 't OutboundResult" where
  "failed message =
     \<lparr>channel = ''qqbot'', messageId = None, timestamp = None, error = message\<rparr>"

text \<open>
  \<^verbatim>\<open>sendText\<close>. The two \<^verbatim>\<open>console.log\<close> lines are left out: they stringify strings
  only and call nothing of the client.
\<close>

definition sendText ::
  "('w, 't) PlatformClient \<Rightarrow> OutboundContext \<Rightarrow> ('w, 't, 't OutboundResult) promise" where
  "sendText api ctx =
     (if \<not> truthy (appId (account ctx)) \<or> \<not> truthy (clientSecret (account ctx)) then
        resolve notConfigured
      else
        tryCatch
          (await (request (GetAccessToken (the (appId (account ctx))) (the (clientSecret (account ctx)))) Token
                    (getAccessToken api (the (appId (account ctx))) (the (clientSecret (account ctx)))))
             (\<lambda>accessToken.
                let target = parseTarget (to ctx) in
                if \<not> truthy (replyToId ctx) then
                  (if type target = C2C then
                     await (request (SendProactiveC2CMessage accessToken (id' target) (text' ctx)) Sent
                              (sendProactiveC2CMessage api accessToken (id' target) (text' ctx)))
                       (\<lambda>result. resolve (sent result))
                   else if type target = Group then
                     await (request (SendProactiveGroupMessage accessToken (id' target) (text' ctx)) Sent
                              (sendProactiveGroupMessage api accessToken (id' target) (text' ctx)))
                       (\<lambda>result. resolve (sent result))
                   else
                     await (request (SendChannelMessage accessToken (id' target) (text' ctx) None) Sent
                              (sendChannelMessage api accessToken (id' target) (text' ctx) None))
                       (\<lambda>result. resolve (sent result)))
                else
                  (if type target = C2C then
                     await (request (SendC2CMessage accessToken (id' target) (text' ctx) (replyToId ctx)) Sent
                              (sendC2CMessage api accessToken (id' target) (text' ctx) (replyToId ctx)))
                       (\<lambda>result. resolve (sent result))
                   else if type target = Group then
                     await (request (SendGroupMessage accessToken (id' target) (text' ctx) (replyToId ctx)) Sent
                              (sendGroupMessage api accessToken (id' target) (text' ctx) (replyToId ctx)))
                       (\<lambda>result. resolve (sent result))
                   else
                     await (request (SendChannelMessage accessToken (id' target) (text' ctx) (replyToId ctx)) Sent
                              (sendChannelMessage api accessToken (id' target) (text' ctx) (replyToId ctx)))
                       (\<lambda>result. resolve (sent result)))))
          (\<lambda>err. await (evaluate (errorMessage err)) (\<lambda>message. resolve (failed message))))"

text \<open>\<^verbatim>\<open>sendProactiveMessage\<close>, the standalone proactive entry point.\<close>

definition sendProactiveMessage ::
  "('w, 't) PlatformClient \<Rightarrow> QQBotAccount \<Rightarrow> string \<Rightarrow> string \<Rightarrow> ('w, 't, 't OutboundResult) promise" where
  "sendProactiveMessage api acct target_to msg =
     (if \<not> truthy (appId acct) \<or> \<not> truthy (clientSecret acct) then
        resolve notConfigured
      else
        tryCatch
          (await (request (GetAccessToken (the (appId acct)) (the (clientSecret acct))) Token
                    (getAccessToken api (the (appId acct)) (the (clientSecret acct))))
             (\<lambda>accessToken.
                let target = parseTarget target_to in
                if type target = C2C then
                  await (request (SendProactiveC2CMessage accessToken (id' target) msg) Sent
                           (sendProactiveC2CMessage api accessToken (id' target) msg))
                    (\<lambda>result. resolve (sent result))
                else if type target = Group then
                  await (request (SendProactiveGroupMessage accessToken (id' target) msg) Sent
                           (sendProactiveGroupMessage api accessToken (id' target) msg))
                    (\<lambda>result. resolve (sent result))
                else
                  await (request (SendChannelMessage accessToken (id' target) msg None) Sent
                           (sendChannelMessage api accessToken (id' target) msg None))
                    (\<lambda>result. resolve (sent result))))
          (\<lambda>err. await (evaluate (errorMessage err)) (\<lambda>message. resolve (failed message))))"

section \<open>Session status\<close>

text \<open>
  The status record the host keeps per account and the snapshot it asks the plugin
  for are one type of the plugin SDK, every field but the account id optional.
  Its fields are prefixed here where the account record has the same name.
\<close>

record Snapshot =
  snap_accountId :: string
  snap_name :: "string option"
  snap_enabled :: "bool option"
  configured :: "bool option"
  tokenSource :: "string option"
  running :: "bool option"
  connected :: "bool option"
  lastConnectedAt :: "nat option"
  lastError :: "string option"

definition DEFAULT_ACCOUNT_ID :: string where
  "DEFAULT_ACCOUNT_ID = ''default''"

definition defaultRuntime :: Snapshot where
  "defaultRuntime =
     \<lparr>snap_accountId = DEFAULT_ACCOUNT_ID, snap_name = None, snap_enabled = None,
      configured = None, tokenSource = None,
      running = Some False, connected = Some False, lastConnectedAt = None, lastError = None\<rparr>"

text \<open>
  The two callbacks of \<^verbatim>\<open>gateway.startAccount\<close>, as functions from the status that
  \<^verbatim>\<open>ctx.getStatus()\<close> returns to the status handed to \<^verbatim>\<open>ctx.setStatus\<close>. \<open>now\<close> is
  \<^verbatim>\<open>Date.now()\<close>.
\<close>

definition onReady :: "nat \<Rightarrow> Snapshot \<Rightarrow> Snapshot" where
  "onReady now status =
     status\<lparr>running := Some True, connected := Some True, lastConnectedAt := Some now\<rparr>"

definition onError :: "string \<Rightarrow> Snapshot \<Rightarrow> Snapshot" where
  "onError message status = status\<lparr>lastError := Some message\<rparr>"

text \<open>The statuses the callbacks write, starting from the default runtime.\<close>

inductive written :: "Snapshot \<Rightarrow> bool" where
  initial: "written defaultRuntime"
| ready: "written status \<Longrightarrow> written (onReady now status)"
| failure: "written status \<Longrightarrow> written (onError message status)"

definition buildAccountSnapshot :: "QQBotAccount option \<Rightarrow> Snapshot option \<Rightarrow> Snapshot" where
  "buildAccountSnapshot acct runtime =
     \<lparr>snap_accountId = nullish (map_option accountId acct) DEFAULT_ACCOUNT_ID,
      snap_name = Option.bind acct name,
      snap_enabled = Some (nullish (map_option enabled acct) False),
      configured = Some (truthy (Option.bind acct appId) \<and> truthy (Option.bind acct clientSecret)),
      tokenSource = Option.bind acct secretSource,
      running = Some (nullish (Option.bind runtime running) False),
      connected = Some (nullish (Option.bind runtime connected) False),
      lastConnectedAt = Option.bind runtime lastConnectedAt,
      lastError = Option.bind runtime lastError\<rparr>"

text \<open>The invariant of a session status: connected implies running.\<close>

definition connectedImpliesRunning :: "Snapshot \<Rightarrow> bool" where
  "connectedImpliesRunning status = (connected status = Some True \<longrightarrow> running status = Some True)"

section \<open>Observations and reference definitions used by the statements\<close>

text \<open>The operations a run has invoked, in order, read off its log.\<close>

definition invoked :: "(thrown + 'a) \<times> ('w, 't) world \<Rightarrow> call list" where
  "invoked run = map fst (snd (snd run))"

text \<open>
  What a catch block of the dispatcher makes of a thrown value: the outcome it returns,
  or what the block itself throws.
\<close>

definition caught :: "thrown \<Rightarrow> thrown + 't OutboundResult" where
  "caught err = (case errorMessage err of Inl raised \<Rightarrow> Inl raised | Inr message \<Rightarrow> Inr (failed message))"

text \<open>
  The dispatch table as the specification words it, to compare \<^verbatim>\<open>sendText\<close> with:
  for a target surface and a reply id, the operation of the platform client that is
  to be run, with its arguments, and the entry it leaves in the log. Without a reply
  id (absent or empty) the proactive operation of the surface, and for the channel
  surface, which has none, the plain channel send without reply id; with a reply id
  the passive-reply operation of the surface, the reply id passed through.
\<close>

definition chosen ::
  "('w, 't) PlatformClient \<Rightarrow> OutboundContext \<Rightarrow> string
     \<Rightarrow> call \<times> ('w \<Rightarrow> (thrown + 't SendResult) \<times> 'w)" where
  "chosen api ctx accessToken =
     (let target = parseTarget (to ctx); i = id' target; m = text' ctx; r = replyToId ctx in
      case (type target, truthy r) of
        (C2C, False) \<Rightarrow>
          (SendProactiveC2CMessage accessToken i m, sendProactiveC2CMessage api accessToken i m)
      | (Group, False) \<Rightarrow>
          (SendProactiveGroupMessage accessToken i m, sendProactiveGroupMessage api accessToken i m)
      | (Channel, False) \<Rightarrow>
          (SendChannelMessage accessToken i m None, sendChannelMessage api accessToken i m None)
      | (C2C, True) \<Rightarrow>
          (SendC2CMessage accessToken i m r, sendC2CMessage api accessToken i m r)
      | (Group, True) \<Rightarrow>
          (SendGroupMessage accessToken i m r, sendGroupMessage api accessToken i m r)
      | (Channel, True) \<Rightarrow>
          (SendChannelMessage accessToken i m r, sendChannelMessage api accessToken i m r))"
text \<open>
  The address grammar as the specification words it, to compare the two resolver
  functions with: an optional channel name \<^verbatim>\<open>qqbot:\<close> in any letter case, followed by
  \<^verbatim>\<open>c2c:<id>\<close>, \<^verbatim>\<open>group:<id>\<close>, \<^verbatim>\<open>channel:<id>\<close> or a bare identifier of thirty-two
  hexadecimal digits. The \<^verbatim>\<open><id>\<close> of the three prefixed shapes is any string.
\<close>

definition isChannelName :: "string \<Rightarrow> bool" where
  "isChannelName p = (map canonicalize p = map canonicalize ''qqbot:'')"

inductive addressShape :: "string \<Rightarrow> bool" where
  direct: "addressShape (''c2c:'' @ i)"
| group: "addressShape (''group:'' @ i)"
| channel: "addressShape (''channel:'' @ i)"
| bare: "isHex32 i \<Longrightarrow> addressShape i"

inductive acceptedAddress :: "string \<Rightarrow> bool" where
  plain: "addressShape body \<Longrightarrow> acceptedAddress body"
| prefixed: "isChannelName p \<Longrightarrow> addressShape body \<Longrightarrow> acceptedAddress (p @ body)"

text \<open>
  A configured account and platform clients for the concrete runs below. The world
  of these clients counts the requests they have served, and a send result carries
  the name of the operation that produced it and the count at which it was served.
  The first client answers every request. The second rejects proactive sends, as the
  platform does once the monthly quota is used up. The third cannot issue a token and
  throws a string. The fourth throws, from its proactive sends, an object that
  \<^verbatim>\<open>String\<close> cannot render (\<^verbatim>\<open>Object.create(null)\<close>). The fifth throws, from its token
  request, an \<^verbatim>\<open>Error\<close> whose message is \<^verbatim>\<open>undefined\<close>.
\<close>

definition exampleAccount :: QQBotAccount where
  "exampleAccount =
     \<lparr>accountId = ''default'', name = None, enabled = True,
      appId = Some ''102146862'', clientSecret = Some ''s3cret'', secretSource = Some ''config''\<rparr>"

definition workingClient :: "(nat, nat) PlatformClient" where
  "workingClient =
     \<lparr>getAccessToken = (\<lambda>a c n. (Inr ''token'', Suc n)),
      sendC2CMessage =
        (\<lambda>t i m r n. (Inr \<lparr>result_id = ''reply-c2c'', result_timestamp = n\<rparr>, Suc n)),
      sendGroupMessage =
        (\<lambda>t i m r n. (Inr \<lparr>result_id = ''reply-group'', result_timestamp = n\<rparr>, Suc n)),
      sendChannelMessage =
        (\<lambda>t i m r n. (Inr \<lparr>result_id = ''channel'', result_timestamp = n\<rparr>, Suc n)),
      sendProactiveC2CMessage =
        (\<lambda>t i m n. (Inr \<lparr>result_id = ''proactive-c2c'', result_timestamp = n\<rparr>, Suc n)),
      sendProactiveGroupMessage =
        (\<lambda>t i m n. (Inr \<lparr>result_id = ''proactive-group'', result_timestamp = n\<rparr>, Suc n))\<rparr>"

definition quotaClient :: "(nat, nat) PlatformClient" where
  "quotaClient =
     workingClient
       \<lparr>sendProactiveC2CMessage :=
          (\<lambda>t i m n. (Inl (ErrorInstance (Some ''quota exceeded'')), Suc n)),
        sendProactiveGroupMessage :=
          (\<lambda>t i m n. (Inl (ErrorInstance (Some ''quota exceeded'')), Suc n))\<rparr>"

definition offlineClient :: "(nat, nat) PlatformClient" where
  "offlineClient =
     workingClient\<lparr>getAccessToken := (\<lambda>a c n. (Inl (OtherValue ''fetch failed''), Suc n))\<rparr>"

definition opaqueClient :: "(nat, nat) PlatformClient" where
  "opaqueClient =
     workingClient
       \<lparr>sendProactiveC2CMessage :=
          (\<lambda>t i m n.
             (Inl (Unrenderable (ErrorInstance (Some ''Cannot convert object to primitive value''))),
              Suc n))\<rparr>"

definition silentClient :: "(nat, nat) PlatformClient" where
  "silentClient =
     workingClient\<lparr>getAccessToken := (\<lambda>a c n. (Inl (ErrorInstance None), Suc n))\<rparr>"
section \<open>The target resolver\<close>

subsection \<open>Stripping the channel name\<close>

lemma isChannelName_length: "isChannelName p \<Longrightarrow> length p = 6"
  by (auto simp: isChannelName_def dest: arg_cong [where f = length])

lemma strip_prefixed: "isChannelName p \<Longrightarrow> stripChannelPrefix (p @ body) = body"
  using isChannelName_length [of p]
  by (simp add: stripChannelPrefix_def matchesChannelPrefix_def isChannelName_def)

lemma matches_hd:
  "matchesChannelPrefix s \<Longrightarrow> \<exists>c cs. s = c # cs \<and> canonicalize c = CHR ''Q''"
  by (cases s) (auto simp: matchesChannelPrefix_def canonicalize_def)

lemma hex_not_Q: "isHexDigit c \<Longrightarrow> canonicalize c \<noteq> CHR ''Q''"
  by (auto simp: isHexDigit_def)

text \<open>
  No accepted shape begins with the channel name: the prefixed shapes begin with
  \<open>c\<close> or \<open>g\<close>, and a hexadecimal digit is never a \<open>q\<close>. So the anchored
  replacement leaves an address without channel name alone.
\<close>

lemma shape_no_prefix: "addressShape body \<Longrightarrow> \<not> matchesChannelPrefix body"
proof (induction rule: addressShape.induct)
  case (bare i)
  show ?case
  proof
    assume "matchesChannelPrefix i"
    then obtain c cs where "i = c # cs" "canonicalize c = CHR ''Q''"
      using matches_hd by blast
    with bare show False by (auto simp: isHex32_def dest: hex_not_Q)
  qed
qed (auto simp: matchesChannelPrefix_def canonicalize_def)

lemma strip_plain: "addressShape body \<Longrightarrow> stripChannelPrefix body = body"
  by (simp add: stripChannelPrefix_def shape_no_prefix)

lemma strip_optional:
  "p = [] \<or> isChannelName p \<Longrightarrow> addressShape body \<Longrightarrow> stripChannelPrefix (p @ body) = body"
  by (auto simp: strip_plain strip_prefixed)

subsection \<open>The grammar against the prefix tests of the code\<close>

lemma startsWithD: "startsWith s p \<Longrightarrow> s = p @ drop (length p) s"
  by (metis append_take_drop_id startsWith_def)

lemma startsWith_all: "startsWith s p \<Longrightarrow> list_all P s \<Longrightarrow> list_all P p"
  by (metis list_all_append startsWithD)

lemma shape_iff:
  "addressShape s \<longleftrightarrow>
     startsWith s ''c2c:'' \<or> startsWith s ''group:'' \<or> startsWith s ''channel:'' \<or> isHex32 s"
proof
  assume "addressShape s"
  then show "startsWith s ''c2c:'' \<or> startsWith s ''group:'' \<or> startsWith s ''channel:'' \<or> isHex32 s"
    by (induction rule: addressShape.induct) (simp_all add: startsWith_def)
next
  assume "startsWith s ''c2c:'' \<or> startsWith s ''group:'' \<or> startsWith s ''channel:'' \<or> isHex32 s"
  then show "addressShape s"
    by (metis startsWithD addressShape.intros)
qed

lemma accepted_iff: "acceptedAddress raw \<longleftrightarrow> addressShape (stripChannelPrefix raw)"
proof
  assume "acceptedAddress raw"
  then show "addressShape (stripChannelPrefix raw)"
    by (induction rule: acceptedAddress.induct) (simp_all add: strip_plain strip_prefixed)
next
  assume shape: "addressShape (stripChannelPrefix raw)"
  show "acceptedAddress raw"
  proof (cases "matchesChannelPrefix raw")
    case True
    then have "isChannelName (take 6 raw)" "raw = take 6 raw @ drop 6 raw"
      by (simp_all add: matchesChannelPrefix_def isChannelName_def)
    moreover from True shape have "addressShape (drop 6 raw)"
      by (simp add: stripChannelPrefix_def)
    ultimately show ?thesis
      by (metis acceptedAddress.prefixed)
  next
    case False
    with shape show ?thesis
      by (simp add: stripChannelPrefix_def acceptedAddress.plain)
  qed
qed

lemma looksLikeId_accepted: "looksLikeId raw \<longleftrightarrow> acceptedAddress raw"
  by (auto simp: looksLikeId_def accepted_iff shape_iff Let_def)

subsection \<open>What the parser returns\<close>

lemma parseTarget_shape:
  "parseTarget raw =
     (let s = stripChannelPrefix raw in
      if startsWith s ''c2c:'' then \<lparr>type = C2C, id' = drop 4 s\<rparr>
      else if startsWith s ''group:'' then \<lparr>type = Group, id' = drop 6 s\<rparr>
      else if startsWith s ''channel:'' then \<lparr>type = Channel, id' = drop 8 s\<rparr>
      else \<lparr>type = C2C, id' = s\<rparr>)"
  by (simp add: parseTarget_def slice_def Let_def)

lemma parseTarget_unaccepted:
  "\<not> acceptedAddress raw \<Longrightarrow> parseTarget raw = \<lparr>type = C2C, id' = stripChannelPrefix raw\<rparr>"
  by (simp add: parseTarget_shape accepted_iff shape_iff Let_def)

lemma parse_c2c:
  "stripChannelPrefix raw = ''c2c:'' @ i \<Longrightarrow> parseTarget raw = \<lparr>type = C2C, id' = i\<rparr>"
  by (simp add: parseTarget_shape startsWith_def)

lemma parse_group:
  "stripChannelPrefix raw = ''group:'' @ i \<Longrightarrow> parseTarget raw = \<lparr>type = Group, id' = i\<rparr>"
  by (simp add: parseTarget_shape startsWith_def)

lemma parse_channel:
  "stripChannelPrefix raw = ''channel:'' @ i \<Longrightarrow> parseTarget raw = \<lparr>type = Channel, id' = i\<rparr>"
  by (simp add: parseTarget_shape startsWith_def)

lemma hex32_not_prefixed:
  assumes "isHex32 i"
  shows "\<not> startsWith i ''c2c:''" "\<not> startsWith i ''group:''" "\<not> startsWith i ''channel:''"
  using assms startsWith_all [of i _ isHexDigit]
  by (fastforce simp: isHex32_def isHexDigit_def canonicalize_def)+

lemma parse_bare:
  "stripChannelPrefix raw = i \<Longrightarrow> isHex32 i \<Longrightarrow> parseTarget raw = \<lparr>type = C2C, id' = i\<rparr>"
  by (simp add: parseTarget_shape hex32_not_prefixed)

lemma foo_unaccepted: "\<not> acceptedAddress ''foo''"
  by (simp add: accepted_iff shape_iff stripChannelPrefix_def matchesChannelPrefix_def
      startsWith_def isHex32_def canonicalize_def)

lemma xyz_unaccepted: "\<not> acceptedAddress ''xyz:abc''"
  by (simp add: accepted_iff shape_iff stripChannelPrefix_def matchesChannelPrefix_def
      startsWith_def isHex32_def canonicalize_def)

subsection \<open>Claims on the target resolver\<close>

text \<open>
  Claim C6. For every id string and each of the four accepted address shapes,
  \<^verbatim>\<open>c2c:<id>\<close>, \<^verbatim>\<open>group:<id>\<close>, \<^verbatim>\<open>channel:<id>\<close> and a bare identifier of thirty-two
  hexadecimal digits, with or without the channel name \<^verbatim>\<open>qqbot:\<close> in any letter case
  in front, the parser returns the surface the prefix names (the direct-message
  surface for \<^verbatim>\<open>c2c:\<close> and for the bare form) and the embedded id unchanged. The
  parser is a total function, so it succeeds on each of them.
\<close>

theorem parseTarget_roundtrip:
  assumes "p = [] \<or> isChannelName p"
  shows "parseTarget (p @ ''c2c:'' @ i) = \<lparr>type = C2C, id' = i\<rparr>
       \<and> parseTarget (p @ ''group:'' @ i) = \<lparr>type = Group, id' = i\<rparr>
       \<and> parseTarget (p @ ''channel:'' @ i) = \<lparr>type = Channel, id' = i\<rparr>
       \<and> (isHex32 i \<longrightarrow> parseTarget (p @ i) = \<lparr>type = C2C, id' = i\<rparr>)"
proof -
  have strip: "stripChannelPrefix (p @ body) = body" if "addressShape body" for body
    using assms that by (rule strip_optional)
  have "parseTarget (p @ ''c2c:'' @ i) = \<lparr>type = C2C, id' = i\<rparr>"
    using strip [OF addressShape.direct] by (rule parse_c2c)
  moreover have "parseTarget (p @ ''group:'' @ i) = \<lparr>type = Group, id' = i\<rparr>"
    using strip [OF addressShape.group] by (rule parse_group)
  moreover have "parseTarget (p @ ''channel:'' @ i) = \<lparr>type = Channel, id' = i\<rparr>"
    using strip [OF addressShape.channel] by (rule parse_channel)
  moreover have "parseTarget (p @ i) = \<lparr>type = C2C, id' = i\<rparr>" if "isHex32 i"
    using strip [OF addressShape.bare [OF that]] that by (rule parse_bare)
  ultimately show ?thesis by blast
qed

text \<open>The four shapes behind the channel name written \<^verbatim>\<open>QQBot:\<close>.\<close>

theorem parseTarget_roundtrip_witness:
  "isChannelName ''QQBot:'' \<and> isHex32 ''0123456789abcdefABCDEF0123456789''
   \<and> parseTarget ''QQBot:c2c:0123456789abcdefABCDEF0123456789''
       = \<lparr>type = C2C, id' = ''0123456789abcdefABCDEF0123456789''\<rparr>
   \<and> parseTarget ''QQBot:group:0123456789abcdefABCDEF0123456789''
       = \<lparr>type = Group, id' = ''0123456789abcdefABCDEF0123456789''\<rparr>
   \<and> parseTarget ''QQBot:channel:0123456789abcdefABCDEF0123456789''
       = \<lparr>type = Channel, id' = ''0123456789abcdefABCDEF0123456789''\<rparr>
   \<and> parseTarget ''QQBot:0123456789abcdefABCDEF0123456789''
       = \<lparr>type = C2C, id' = ''0123456789abcdefABCDEF0123456789''\<rparr>"
proof -
  have n: "isChannelName ''QQBot:''"
    by (simp add: isChannelName_def canonicalize_def)
  have h: "isHex32 ''0123456789abcdefABCDEF0123456789''"
    by (simp add: isHex32_def isHexDigit_def canonicalize_def)
  from n have "''QQBot:'' = [] \<or> isChannelName ''QQBot:''" ..
  from parseTarget_roundtrip [OF this, of "''0123456789abcdefABCDEF0123456789''"] n h
  show ?thesis by simp
qed

text \<open>
  Claim C5, as amended. The parser never fails. For every raw string outside the
  grammar (after the optional channel name: none of \<^verbatim>\<open>c2c:<id>\<close>, \<^verbatim>\<open>group:<id>\<close>,
  \<^verbatim>\<open>channel:<id>\<close> with any id, the empty one included, nor a bare identifier of
  thirty-two hexadecimal digits) it returns the direct-message surface with the
  stripped string as id, which is the raw string itself when the raw string carries no
  channel name.
\<close>

theorem parseTarget_fallback:
  assumes "\<not> acceptedAddress raw"
  shows "parseTarget raw = \<lparr>type = C2C, id' = stripChannelPrefix raw\<rparr>
       \<and> (\<not> matchesChannelPrefix raw \<longrightarrow> parseTarget raw = \<lparr>type = C2C, id' = raw\<rparr>)"
  using parseTarget_unaccepted [OF assms] by (simp add: stripChannelPrefix_def)

theorem parseTarget_fallback_witness:
  "\<not> acceptedAddress ''xyz:abc'' \<and> \<not> matchesChannelPrefix ''xyz:abc''
   \<and> parseTarget ''xyz:abc'' = \<lparr>type = C2C, id' = ''xyz:abc''\<rparr>"
  using parseTarget_fallback [OF xyz_unaccepted] xyz_unaccepted
  by (simp add: stripChannelPrefix_def matchesChannelPrefix_def canonicalize_def)

text \<open>
  Claim C5 as first stated counts \<^verbatim>\<open>c2c:\<close>, a prefix with an empty id, among the
  strings outside the grammar, promises the raw string as the id of the fallback,
  and promises that no such string gets a surface other than the direct-message one.
  A prefix with an empty id is parsed like any other prefixed string: \<^verbatim>\<open>group:\<close> and
  \<^verbatim>\<open>channel:\<close> get the group and the channel surface, \<^verbatim>\<open>c2c:\<close> gets the empty id
  rather than the raw string, and \<^verbatim>\<open>qqbot:foo\<close> gets the id \<^verbatim>\<open>foo\<close>.
\<close>

theorem parseTarget_empty_id_counterexample:
  "parseTarget ''group:'' = \<lparr>type = Group, id' = ''''\<rparr>
   \<and> parseTarget ''channel:'' = \<lparr>type = Channel, id' = ''''\<rparr>
   \<and> parseTarget ''c2c:'' = \<lparr>type = C2C, id' = ''''\<rparr>
   \<and> parseTarget ''qqbot:foo'' = \<lparr>type = C2C, id' = ''foo''\<rparr>"
  by (simp add: parseTarget_def stripChannelPrefix_def matchesChannelPrefix_def
      startsWith_def slice_def canonicalize_def)

text \<open>
  Claim C4, as amended. \<^verbatim>\<open>looksLikeId\<close> is true exactly on the strings of the grammar
  (the four address shapes, the channel name optional). The parser accepts more: it
  returns a target for every string, and on every string that \<^verbatim>\<open>looksLikeId\<close> rejects
  it returns the direct-message fallback with the stripped string as id.
\<close>

theorem looksLikeId_agreement:
  "(looksLikeId raw \<longleftrightarrow> acceptedAddress raw)
   \<and> (\<not> looksLikeId raw \<longrightarrow> parseTarget raw = \<lparr>type = C2C, id' = stripChannelPrefix raw\<rparr>)"
  using looksLikeId_accepted [of raw] parseTarget_unaccepted [of raw] by simp

theorem looksLikeId_agreement_witness:
  "\<not> looksLikeId ''foo'' \<and> \<not> acceptedAddress ''foo''
   \<and> parseTarget ''foo'' = \<lparr>type = C2C, id' = ''foo''\<rparr>"
  using looksLikeId_agreement [of "''foo''"] foo_unaccepted
  by (simp add: stripChannelPrefix_def matchesChannelPrefix_def canonicalize_def)

text \<open>
  Claim C4 as first stated has the predicate and the parser agree on every input, bare
  strings that are neither hexadecimal nor prefixed included. On \<^verbatim>\<open>foo\<close> the predicate
  answers false and the parser returns a target.
\<close>

theorem looksLikeId_disagrees_counterexample:
  "\<not> looksLikeId ''foo'' \<and> parseTarget ''foo'' = \<lparr>type = C2C, id' = ''foo''\<rparr>"
  by (simp add: looksLikeId_def parseTarget_def stripChannelPrefix_def matchesChannelPrefix_def
      startsWith_def isHex32_def canonicalize_def)

section \<open>The outbound dispatcher\<close>

subsection \<open>The runs of \<^verbatim>\<open>sendText\<close>\<close>

lemma sendText_unconfigured:
  "\<not> truthy (appId (account ctx)) \<or> \<not> truthy (clientSecret (account ctx)) \<Longrightarrow>
   sendText api ctx s = (Inr notConfigured, s)"
  by (auto simp: sendText_def resolve_def)

lemma truthy_iff: "truthy x \<longleftrightarrow> (\<exists>v. x = Some v \<and> v \<noteq> [])"
  by (cases x) simp_all

text \<open>
  With credentials, a run is the token request followed, when a token was issued, by
  the one operation of the dispatch table, run on the world the token request left.
  What either of them throws goes through the catch block.
\<close>

lemma sendText_run:
  assumes "appId (account ctx) = Some a" "a \<noteq> []" "clientSecret (account ctx) = Some s" "s \<noteq> []"
  shows "sendText api ctx (w, log) =
     (case getAccessToken api a s w of
        (Inl err, w1) \<Rightarrow> (caught err, (w1, log @ [(GetAccessToken a s, Inl err)]))
      | (Inr accessToken, w1) \<Rightarrow>
          (case chosen api ctx accessToken of
             (c, operation) \<Rightarrow>
               (case operation w1 of
                  (Inl err, w2) \<Rightarrow>
                    (caught err,
                     (w2, log @ [(GetAccessToken a s, Inr (Token accessToken)), (c, Inl err)]))
                | (Inr result, w2) \<Rightarrow>
                    (Inr (sent result),
                     (w2, log @ [(GetAccessToken a s, Inr (Token accessToken)),
                                 (c, Inr (Sent result))])))))"
proof (cases "getAccessToken api a s w")
  case (Pair r w1)
  show ?thesis
  proof (cases r)
    case (Inl err)
    with Pair assms show ?thesis
      by (simp add: sendText_def tryCatch_def await_def request_def evaluate_def resolve_def
          caught_def split: sum.splits)
  next
    case (Inr accessToken)
    with Pair assms show ?thesis
      by (cases "type (parseTarget (to ctx))"; cases "truthy (replyToId ctx)")
         (simp_all add: sendText_def tryCatch_def Let_def chosen_def await_def request_def
          evaluate_def resolve_def caught_def split: prod.splits sum.splits)
  qed
qed

lemma sendText_token_throws:
  assumes "appId (account ctx) = Some a" "a \<noteq> []" "clientSecret (account ctx) = Some s" "s \<noteq> []"
    and "getAccessToken api a s w = (Inl err, w1)"
  shows "sendText api ctx (w, []) = (caught err, (w1, [(GetAccessToken a s, Inl err)]))"
  using sendText_run [OF assms(1-4), of api w "[]"] assms(5) by simp

lemma sendText_send_throws:
  assumes "appId (account ctx) = Some a" "a \<noteq> []" "clientSecret (account ctx) = Some s" "s \<noteq> []"
    and "getAccessToken api a s w = (Inr accessToken, w1)"
    and "snd (chosen api ctx accessToken) w1 = (Inl err, w2)"
  shows "fst (sendText api ctx (w, [])) = caught err"
  using sendText_run [OF assms(1-4), of api w "[]"] assms(5,6)
  by (cases "chosen api ctx accessToken") simp

lemma sendText_send_returns:
  assumes "appId (account ctx) = Some a" "a \<noteq> []" "clientSecret (account ctx) = Some s" "s \<noteq> []"
    and "getAccessToken api a s w = (Inr accessToken, w1)"
    and "snd (chosen api ctx accessToken) w1 = (Inr result, w2)"
  shows "fst (sendText api ctx (w, [])) = Inr (sent result)"
  using sendText_run [OF assms(1-4), of api w "[]"] assms(5,6)
  by (cases "chosen api ctx accessToken") simp

lemma caught_cases:
  "caught (ErrorInstance message) = Inr (failed message)"
  "caught (OtherValue rendered) = Inr (failed (Some rendered))"
  "caught (Unrenderable raised) = Inl raised"
  by (simp_all add: caught_def)

lemma caught_Inl: "caught err = Inl raised \<Longrightarrow> err = Unrenderable raised"
  by (cases err) (simp_all add: caught_cases)

lemma caught_Inr:
  "caught err = Inr out \<Longrightarrow> messageId out = None \<and> (error out = None \<longrightarrow> err = ErrorInstance None)"
  by (cases err) (auto simp: caught_cases failed_def)

text \<open>
  The three ways a run with credentials ends: the token request throws, the selected
  send throws, or the selected send returns.
\<close>

lemma sendText_ends:
  assumes "appId (account ctx) = Some a" "a \<noteq> []" "clientSecret (account ctx) = Some s" "s \<noteq> []"
  obtains (token_throws) err where
      "fst (getAccessToken api a s w) = Inl err" "fst (sendText api ctx (w, [])) = caught err"
  | (send_throws) accessToken w1 err where
      "getAccessToken api a s w = (Inr accessToken, w1)"
      "fst (snd (chosen api ctx accessToken) w1) = Inl err"
      "fst (sendText api ctx (w, [])) = caught err"
  | (send_returns) accessToken w1 result where
      "getAccessToken api a s w = (Inr accessToken, w1)"
      "fst (snd (chosen api ctx accessToken) w1) = Inr result"
      "fst (sendText api ctx (w, [])) = Inr (sent result)"
proof (cases "getAccessToken api a s w")
  case (Pair rt w1)
  show ?thesis
  proof (cases rt)
    case (Inl err)
    with Pair have t: "getAccessToken api a s w = (Inl err, w1)" by simp
    have "fst (sendText api ctx (w, [])) = caught err"
      using sendText_token_throws [OF assms t] by simp
    moreover from t have "fst (getAccessToken api a s w) = Inl err" by simp
    ultimately show ?thesis by (rule token_throws [rotated])
  next
    case (Inr accessToken)
    with Pair have t: "getAccessToken api a s w = (Inr accessToken, w1)" by simp
    obtain rs w2 where op: "snd (chosen api ctx accessToken) w1 = (rs, w2)"
      by (cases "snd (chosen api ctx accessToken) w1")
    show ?thesis
    proof (cases rs)
      case (Inl err)
      with op have o: "snd (chosen api ctx accessToken) w1 = (Inl err, w2)" by simp
      from o have "fst (snd (chosen api ctx accessToken) w1) = Inl err" by simp
      with t show ?thesis
        using sendText_send_throws [OF assms t o] by (rule send_throws)
    next
      case result: (Inr result)
      with op have o: "snd (chosen api ctx accessToken) w1 = (Inr result, w2)" by simp
      from o have "fst (snd (chosen api ctx accessToken) w1) = Inr result" by simp
      with t show ?thesis
        using sendText_send_returns [OF assms t o] by (rule send_returns)
    qed
  qed
qed

lemma sendText_rejected:
  fixes api :: "('w, 't) PlatformClient"
  assumes r: "fst (sendText api ctx (w, [])) = Inl raised"
  shows "\<exists>a s. appId (account ctx) = Some a \<and> clientSecret (account ctx) = Some s
        \<and> (fst (getAccessToken api a s w) = Inl (Unrenderable raised)
           \<or> (\<exists>accessToken w1. getAccessToken api a s w = (Inr accessToken, w1)
                 \<and> fst (snd (chosen api ctx accessToken) w1) = Inl (Unrenderable raised)))"
proof (cases "truthy (appId (account ctx)) \<and> truthy (clientSecret (account ctx))")
  case False
  then have "sendText api ctx (w, []) = (Inr notConfigured, (w, []))"
    by (intro sendText_unconfigured) blast
  with r show ?thesis by simp
next
  case True
  then obtain a s where c: "appId (account ctx) = Some a" "a \<noteq> []"
      "clientSecret (account ctx) = Some s" "s \<noteq> []"
    by (auto simp: truthy_iff)
  from c show ?thesis
  proof (cases rule: sendText_ends [where api = api and w = w])
    case (token_throws err)
    with r have "caught err = (Inl raised :: thrown + 't OutboundResult)" by simp
    then have "err = Unrenderable raised" by (rule caught_Inl)
    with token_throws(1) c(1,3) show ?thesis by blast
  next
    case (send_throws accessToken w1 err)
    with r have "caught err = (Inl raised :: thrown + 't OutboundResult)" by simp
    then have "err = Unrenderable raised" by (rule caught_Inl)
    with send_throws(1,2) c(1,3) show ?thesis by blast
  next
    case (send_returns accessToken w1 result)
    with r show ?thesis by simp
  qed
qed

lemmas run_defs =
  sendText_def sendProactiveMessage_def tryCatch_def await_def request_def resolve_def
  evaluate_def Let_def sent_def failed_def notConfigured_def invoked_def parseTarget_def
  stripChannelPrefix_def matchesChannelPrefix_def startsWith_def slice_def canonicalize_def
  exampleAccount_def workingClient_def quotaClient_def offlineClient_def opaqueClient_def
  silentClient_def

subsection \<open>Claims on the dispatcher\<close>

text \<open>
  Claim C1, as amended. For every configured account, target string and text, once
  \<^verbatim>\<open>getAccessToken\<close> has returned a token, \<^verbatim>\<open>sendText\<close> runs exactly one send
  operation of the platform client, on the world the token request left. When
  \<^verbatim>\<open>replyToId\<close> is absent or the empty string, that is the proactive operation of the
  surface for the direct-message and the group surface and the plain
  \<^verbatim>\<open>sendChannelMessage\<close>, without a reply id, for the channel surface. When \<^verbatim>\<open>replyToId\<close>
  is a non-empty string, it is the passive-reply operation of the surface, for all
  three surfaces, with \<^verbatim>\<open>replyToId\<close> passed through. The outcome of the run is made of
  what that operation returns or throws, the world after the run is the world that
  operation leaves, and the log holds the token request and that one send.
\<close>

theorem sendText_selects_operation:
  assumes "appId (account ctx) = Some a" "a \<noteq> []" "clientSecret (account ctx) = Some s" "s \<noteq> []"
    and "getAccessToken api a s w = (Inr accessToken, w1)"
  shows "sendText api ctx (w, []) =
     (let target = parseTarget (to ctx); i = id' target; m = text' ctx; rid = replyToId ctx;
          (c, r, w2) =
            (if \<not> truthy rid then
               (case type target of
                  C2C \<Rightarrow>
                    (SendProactiveC2CMessage accessToken i m,
                     sendProactiveC2CMessage api accessToken i m w1)
                | Group \<Rightarrow>
                    (SendProactiveGroupMessage accessToken i m,
                     sendProactiveGroupMessage api accessToken i m w1)
                | Channel \<Rightarrow>
                    (SendChannelMessage accessToken i m None,
                     sendChannelMessage api accessToken i m None w1))
             else
               (case type target of
                  C2C \<Rightarrow>
                    (SendC2CMessage accessToken i m rid, sendC2CMessage api accessToken i m rid w1)
                | Group \<Rightarrow>
                    (SendGroupMessage accessToken i m rid, sendGroupMessage api accessToken i m rid w1)
                | Channel \<Rightarrow>
                    (SendChannelMessage accessToken i m rid,
                     sendChannelMessage api accessToken i m rid w1)))
      in ((case r of Inl err \<Rightarrow> caught err | Inr result \<Rightarrow> Inr (sent result)),
          (w2, [(GetAccessToken a s, Inr (Token accessToken)), (c, map_sum (\<lambda>e. e) Sent r)])))"
  using sendText_run [OF assms(1-4), of api w "[]"] assms(5)
  by (cases "type (parseTarget (to ctx))"; cases "truthy (replyToId ctx)")
     (simp_all add: chosen_def Let_def split: prod.splits sum.splits)

text \<open>
  A reply to \<^verbatim>\<open>msg-42\<close> in the group \<^verbatim>\<open>G1\<close> is what the passive group operation
  returns, and a message to \<^verbatim>\<open>c2c:ABCD1234\<close> without reply id is what the proactive
  direct-message operation returns; each is the second request the client serves.
\<close>

theorem sendText_selects_operation_witness:
  "sendText workingClient
      \<lparr>to = ''group:G1'', text' = ''hello'', ctx_accountId = None,
       replyToId = Some ''msg-42'', account = exampleAccount\<rparr> (0, []) =
   (Inr \<lparr>channel = ''qqbot'', messageId = Some ''reply-group'', timestamp = Some 1, error = None\<rparr>,
    (2, [(GetAccessToken ''102146862'' ''s3cret'', Inr (Token ''token'')),
         (SendGroupMessage ''token'' ''G1'' ''hello'' (Some ''msg-42''),
          Inr (Sent \<lparr>result_id = ''reply-group'', result_timestamp = 1\<rparr>))]))
   \<and> sendText workingClient
      \<lparr>to = ''c2c:ABCD1234'', text' = ''hello'', ctx_accountId = None,
       replyToId = None, account = exampleAccount\<rparr> (0, []) =
   (Inr \<lparr>channel = ''qqbot'', messageId = Some ''proactive-c2c'', timestamp = Some 1, error = None\<rparr>,
    (2, [(GetAccessToken ''102146862'' ''s3cret'', Inr (Token ''token'')),
         (SendProactiveC2CMessage ''token'' ''ABCD1234'' ''hello'',
          Inr (Sent \<lparr>result_id = ''proactive-c2c'', result_timestamp = 1\<rparr>))]))"
  using
    sendText_selects_operation [of "\<lparr>to = ''group:G1'', text' = ''hello'', ctx_accountId = None,
       replyToId = Some ''msg-42'', account = exampleAccount\<rparr>" "''102146862''" "''s3cret''"
       workingClient 0 "''token''" 1]
    sendText_selects_operation [of "\<lparr>to = ''c2c:ABCD1234'', text' = ''hello'', ctx_accountId = None,
       replyToId = None, account = exampleAccount\<rparr>" "''102146862''" "''s3cret''"
       workingClient 0 "''token''" 1]
  by (simp add: exampleAccount_def workingClient_def parseTarget_def stripChannelPrefix_def
      matchesChannelPrefix_def startsWith_def slice_def canonicalize_def sent_def)

text \<open>
  Claim C1 as first stated sends every present \<^verbatim>\<open>replyToId\<close> down the passive-reply
  path. A \<^verbatim>\<open>replyToId\<close> that is present and empty is falsy: the proactive operation is
  run, and no passive one.
\<close>

theorem sendText_empty_replyToId_counterexample:
  "sendText workingClient
      \<lparr>to = ''c2c:ABCD1234'', text' = ''hello'', ctx_accountId = None,
       replyToId = Some '''', account = exampleAccount\<rparr> (0, []) =
   (Inr \<lparr>channel = ''qqbot'', messageId = Some ''proactive-c2c'', timestamp = Some 1, error = None\<rparr>,
    (2, [(GetAccessToken ''102146862'' ''s3cret'', Inr (Token ''token'')),
         (SendProactiveC2CMessage ''token'' ''ABCD1234'' ''hello'',
          Inr (Sent \<lparr>result_id = ''proactive-c2c'', result_timestamp = 1\<rparr>))]))"
  by (simp add: run_defs)

text \<open>
  Claim C2, as amended. Whatever the platform client does, what its token request or
  the send selected by the dispatch table throws is caught, and the catch block makes
  the outcome of it. If it is an \<^verbatim>\<open>Error\<close>, \<^verbatim>\<open>sendText\<close> returns an outcome whose error
  field is its message (absent when the message is undefined) and which has no message
  id; if it is another value that \<^verbatim>\<open>String\<close> renders, the error field is the
  rendering. If rendering the thrown value itself throws, that second exception leaves
  the unguarded catch block: the promise of \<^verbatim>\<open>sendText\<close> is rejected with it. In no
  other case is \<^verbatim>\<open>sendText\<close> rejected.
\<close>

theorem sendText_catches:
  fixes api :: "('w, 't) PlatformClient"
  shows
  "(appId (account ctx) = Some a \<and> a \<noteq> [] \<and> clientSecret (account ctx) = Some s \<and> s \<noteq> []
      \<and> getAccessToken api a s w = (Inl err, w1)
      \<longrightarrow> fst (sendText api ctx (w, [])) = caught err)
   \<and> (appId (account ctx) = Some a \<and> a \<noteq> [] \<and> clientSecret (account ctx) = Some s \<and> s \<noteq> []
      \<and> getAccessToken api a s w = (Inr accessToken, w1)
      \<and> snd (chosen api ctx accessToken) w1 = (Inl err, w2)
      \<longrightarrow> fst (sendText api ctx (w, [])) = caught err)
   \<and> (caught (ErrorInstance message) :: thrown + 't OutboundResult) =
        Inr \<lparr>channel = ''qqbot'', messageId = None, timestamp = None, error = message\<rparr>
   \<and> (caught (OtherValue rendered) :: thrown + 't OutboundResult) =
        Inr \<lparr>channel = ''qqbot'', messageId = None, timestamp = None, error = Some rendered\<rparr>
   \<and> (caught (Unrenderable raised) :: thrown + 't OutboundResult) = Inl raised
   \<and> (fst (sendText api ctx (w, [])) = Inl raised \<longrightarrow>
        (\<exists>a s. appId (account ctx) = Some a \<and> clientSecret (account ctx) = Some s
           \<and> (fst (getAccessToken api a s w) = Inl (Unrenderable raised)
              \<or> (\<exists>accessToken w1. getAccessToken api a s w = (Inr accessToken, w1)
                    \<and> fst (snd (chosen api ctx accessToken) w1) = Inl (Unrenderable raised)))))"
proof (intro conjI impI)
  assume "appId (account ctx) = Some a \<and> a \<noteq> [] \<and> clientSecret (account ctx) = Some s \<and> s \<noteq> []
      \<and> getAccessToken api a s w = (Inl err, w1)"
  then show "fst (sendText api ctx (w, [])) = caught err"
    using sendText_token_throws [of ctx a s api w err w1] by simp
next
  assume "appId (account ctx) = Some a \<and> a \<noteq> [] \<and> clientSecret (account ctx) = Some s \<and> s \<noteq> []
      \<and> getAccessToken api a s w = (Inr accessToken, w1)
      \<and> snd (chosen api ctx accessToken) w1 = (Inl err, w2)"
  then show "fst (sendText api ctx (w, [])) = caught err"
    using sendText_send_throws [of ctx a s api w accessToken w1 err w2] by simp
next
  show "(caught (ErrorInstance message) :: thrown + 't OutboundResult) =
        Inr \<lparr>channel = ''qqbot'', messageId = None, timestamp = None, error = message\<rparr>"
    by (simp add: caught_cases failed_def)
next
  show "(caught (OtherValue rendered) :: thrown + 't OutboundResult) =
        Inr \<lparr>channel = ''qqbot'', messageId = None, timestamp = None, error = Some rendered\<rparr>"
    by (simp add: caught_cases failed_def)
next
  show "(caught (Unrenderable raised) :: thrown + 't OutboundResult) = Inl raised"
    by (simp add: caught_cases)
next
  assume "fst (sendText api ctx (w, [])) = Inl raised"
  then show "\<exists>a s. appId (account ctx) = Some a \<and> clientSecret (account ctx) = Some s
           \<and> (fst (getAccessToken api a s w) = Inl (Unrenderable raised)
              \<or> (\<exists>accessToken w1. getAccessToken api a s w = (Inr accessToken, w1)
                    \<and> fst (snd (chosen api ctx accessToken) w1) = Inl (Unrenderable raised)))"
    by (rule sendText_rejected)
qed

text \<open>
  The proactive send is rejected for quota: the error of the outcome is the message of
  the \<^verbatim>\<open>Error\<close> thrown. The token cannot be issued and a string is thrown: the error is
  that string.
\<close>

theorem sendText_catches_witness:
  "getAccessToken quotaClient ''102146862'' ''s3cret'' 0 = (Inr ''token'', 1)
   \<and> snd (chosen quotaClient
        \<lparr>to = ''c2c:ABCD1234'', text' = ''hello'', ctx_accountId = None,
         replyToId = None, account = exampleAccount\<rparr> ''token'') 1 =
       (Inl (ErrorInstance (Some ''quota exceeded'')), 2)
   \<and> fst (sendText quotaClient
        \<lparr>to = ''c2c:ABCD1234'', text' = ''hello'', ctx_accountId = None,
         replyToId = None, account = exampleAccount\<rparr> (0, [])) =
       Inr \<lparr>channel = ''qqbot'', messageId = None, timestamp = None, error = Some ''quota exceeded''\<rparr>
   \<and> getAccessToken offlineClient ''102146862'' ''s3cret'' 0 = (Inl (OtherValue ''fetch failed''), 1)
   \<and> fst (sendText offlineClient
        \<lparr>to = ''c2c:ABCD1234'', text' = ''hello'', ctx_accountId = None,
         replyToId = None, account = exampleAccount\<rparr> (0, [])) =
       Inr \<lparr>channel = ''qqbot'', messageId = None, timestamp = None, error = Some ''fetch failed''\<rparr>"
  using
    sendText_catches [where api = quotaClient and a = "''102146862''" and s = "''s3cret''" and w = 0
      and ctx = "\<lparr>to = ''c2c:ABCD1234'', text' = ''hello'', ctx_accountId = None,
         replyToId = None, account = exampleAccount\<rparr>"
      and accessToken = "''token''" and ?w1.0 = 1 and ?w2.0 = 2
      and err = "ErrorInstance (Some ''quota exceeded'')" and message = "Some ''quota exceeded''"]
    sendText_catches [where api = offlineClient and a = "''102146862''" and s = "''s3cret''" and w = 0
      and ctx = "\<lparr>to = ''c2c:ABCD1234'', text' = ''hello'', ctx_accountId = None,
         replyToId = None, account = exampleAccount\<rparr>"
      and ?w1.0 = 1 and err = "OtherValue ''fetch failed''" and rendered = "''fetch failed''"]
  by (simp add: chosen_def exampleAccount_def workingClient_def quotaClient_def offlineClient_def
      parseTarget_def stripChannelPrefix_def matchesChannelPrefix_def startsWith_def slice_def
      canonicalize_def Let_def)

text \<open>
  Claim C2 as first stated has every exception caught and turned into an outcome. The
  send throws an object that \<^verbatim>\<open>String\<close> cannot render, the rendering in the catch block
  throws a \<^verbatim>\<open>TypeError\<close>, and the promise of \<^verbatim>\<open>sendText\<close> is rejected with it.
\<close>

theorem sendText_rejected_counterexample:
  "sendText opaqueClient
      \<lparr>to = ''c2c:ABCD1234'', text' = ''hello'', ctx_accountId = None,
       replyToId = None, account = exampleAccount\<rparr> (0, []) =
   (Inl (ErrorInstance (Some ''Cannot convert object to primitive value'')),
    (2, [(GetAccessToken ''102146862'' ''s3cret'', Inr (Token ''token'')),
         (SendProactiveC2CMessage ''token'' ''ABCD1234'' ''hello'',
          Inl (Unrenderable (ErrorInstance (Some ''Cannot convert object to primitive value''))))]))"
  by (simp add: run_defs)

text \<open>
  Claim C3, as amended. For every account whose \<^verbatim>\<open>appId\<close> or \<^verbatim>\<open>clientSecret\<close> is
  absent (or the empty string), \<^verbatim>\<open>sendText\<close> returns the outcome whose error is
  \<^verbatim>\<open>QQBot not configured (missing appId or clientSecret)\<close> and performs no network
  activity: nothing is added to the log, neither the token request nor a send, and
  the world is as it was.
\<close>

theorem sendText_not_configured:
  assumes "\<not> truthy (appId (account ctx)) \<or> \<not> truthy (clientSecret (account ctx))"
  shows "sendText api ctx (w, []) =
           (Inr \<lparr>channel = ''qqbot'', messageId = None, timestamp = None,
                 error = Some ''QQBot not configured (missing appId or clientSecret)''\<rparr>, (w, []))"
  using sendText_unconfigured [OF assms] by (simp add: notConfigured_def)

theorem sendText_not_configured_witness:
  "\<not> truthy (appId (exampleAccount\<lparr>appId := None\<rparr>))
   \<and> sendText workingClient
      \<lparr>to = ''c2c:ABCD1234'', text' = ''hello'', ctx_accountId = None,
       replyToId = None, account = exampleAccount\<lparr>appId := None\<rparr>\<rparr> (0, []) =
   (Inr \<lparr>channel = ''qqbot'', messageId = None, timestamp = None,
         error = Some ''QQBot not configured (missing appId or clientSecret)''\<rparr>, (0, []))"
  using sendText_not_configured [of "\<lparr>to = ''c2c:ABCD1234'', text' = ''hello'',
       ctx_accountId = None, replyToId = None, account = exampleAccount\<lparr>appId := None\<rparr>\<rparr>"
      workingClient 0]
  by (simp add: exampleAccount_def)

text \<open>
  Claim C3 as first stated gives the error as the string \<^verbatim>\<open>not configured\<close>. The
  error of the outcome is a longer message.
\<close>

theorem sendText_not_configured_counterexample:
  "fst (sendText workingClient
      \<lparr>to = ''c2c:ABCD1234'', text' = ''hello'', ctx_accountId = None,
       replyToId = None, account = exampleAccount\<lparr>appId := None\<rparr>\<rparr> (0, [])) =
     Inr \<lparr>channel = ''qqbot'', messageId = None, timestamp = None,
          error = Some ''QQBot not configured (missing appId or clientSecret)''\<rparr>
   \<and> Some ''QQBot not configured (missing appId or clientSecret)'' \<noteq> Some ''not configured''"
  by (simp add: sendText_def resolve_def notConfigured_def exampleAccount_def)

text \<open>
  Claim C7, as amended. Whatever the platform client does, an outcome that
  \<^verbatim>\<open>sendText\<close> returns never has both the message id and the error. It has exactly one
  of them, unless what the token request or the selected send threw is an \<^verbatim>\<open>Error\<close>
  whose message is undefined: the outcome returned for that has neither.
\<close>

theorem sendText_outcome_exclusive:
  fixes api :: "('w, 't) PlatformClient"
  assumes "fst (sendText api ctx (w, [])) = Inr out"
  shows "\<not> (messageId out \<noteq> None \<and> error out \<noteq> None)
     \<and> (messageId out = None \<and> error out = None \<longrightarrow>
          (\<exists>a s. appId (account ctx) = Some a \<and> clientSecret (account ctx) = Some s
             \<and> (fst (getAccessToken api a s w) = Inl (ErrorInstance None)
                \<or> (\<exists>accessToken w1. getAccessToken api a s w = (Inr accessToken, w1)
                      \<and> fst (snd (chosen api ctx accessToken) w1) = Inl (ErrorInstance None)))))"
proof (cases "truthy (appId (account ctx)) \<and> truthy (clientSecret (account ctx))")
  case False
  then have "sendText api ctx (w, []) = (Inr notConfigured, (w, []))"
    by (intro sendText_unconfigured) blast
  with assms have "out = notConfigured" by simp
  then show ?thesis by (simp add: notConfigured_def)
next
  case True
  then obtain a s where c: "appId (account ctx) = Some a" "a \<noteq> []"
      "clientSecret (account ctx) = Some s" "s \<noteq> []"
    by (auto simp: truthy_iff)
  from c show ?thesis
  proof (cases rule: sendText_ends [where api = api and w = w])
    case (token_throws err)
    with assms have "caught err = Inr out" by simp
    then have "messageId out = None" "error out = None \<longrightarrow> err = ErrorInstance None"
      using caught_Inr by blast+
    with token_throws(1) c(1,3) show ?thesis by blast
  next
    case (send_throws accessToken w1 err)
    with assms have "caught err = Inr out" by simp
    then have "messageId out = None" "error out = None \<longrightarrow> err = ErrorInstance None"
      using caught_Inr by blast+
    with send_throws(1,2) c(1,3) show ?thesis by blast
  next
    case (send_returns accessToken w1 result)
    with assms have "out = sent result" by simp
    then show ?thesis by (simp add: sent_def)
  qed
qed

text \<open>
  A delivered message has the message id and no error. When the token request throws
  an \<^verbatim>\<open>Error\<close> without message, the outcome returned has neither.
\<close>

theorem sendText_outcome_exclusive_witness:
  "fst (sendText workingClient
      \<lparr>to = ''c2c:ABCD1234'', text' = ''hello'', ctx_accountId = None,
       replyToId = None, account = exampleAccount\<rparr> (0, [])) =
     Inr \<lparr>channel = ''qqbot'', messageId = Some ''proactive-c2c'', timestamp = Some 1, error = None\<rparr>
   \<and> fst (sendText silentClient
      \<lparr>to = ''c2c:ABCD1234'', text' = ''hello'', ctx_accountId = None,
       replyToId = None, account = exampleAccount\<rparr> (0, [])) =
     Inr \<lparr>channel = ''qqbot'', messageId = None, timestamp = None, error = None\<rparr>
   \<and> fst (getAccessToken silentClient ''102146862'' ''s3cret'' 0) = Inl (ErrorInstance None)"
proof -
  have delivered: "fst (sendText workingClient
      \<lparr>to = ''c2c:ABCD1234'', text' = ''hello'', ctx_accountId = None,
       replyToId = None, account = exampleAccount\<rparr> (0, [])) =
     Inr \<lparr>channel = ''qqbot'', messageId = Some ''proactive-c2c'', timestamp = Some 1, error = None\<rparr>"
    by (simp add: run_defs)
  have silent: "fst (sendText silentClient
      \<lparr>to = ''c2c:ABCD1234'', text' = ''hello'', ctx_accountId = None,
       replyToId = None, account = exampleAccount\<rparr> (0, [])) =
     Inr \<lparr>channel = ''qqbot'', messageId = None, timestamp = None, error = None\<rparr>"
    by (simp add: run_defs)
  from sendText_outcome_exclusive [OF delivered] sendText_outcome_exclusive [OF silent]
    delivered silent
  show ?thesis by (simp add: silentClient_def)
qed

text \<open>
  Claim C7 as first stated gives every returned outcome exactly one of the two fields.
  The token request throws an \<^verbatim>\<open>Error\<close> whose message is undefined, and the outcome
  returned has neither the message id nor the error.
\<close>

theorem sendText_neither_counterexample:
  "sendText silentClient
      \<lparr>to = ''c2c:ABCD1234'', text' = ''hello'', ctx_accountId = None,
       replyToId = None, account = exampleAccount\<rparr> (0, []) =
   (Inr \<lparr>channel = ''qqbot'', messageId = None, timestamp = None, error = None\<rparr>,
    (1, [(GetAccessToken ''102146862'' ''s3cret'', Inl (ErrorInstance None))]))"
  by (simp add: run_defs)

text \<open>
  Claim C10. For every account, target string and text, from the same world and
  against the same platform client, \<^verbatim>\<open>sendProactiveMessage\<close> runs exactly as
  \<^verbatim>\<open>sendText\<close> does without a \<^verbatim>\<open>replyToId\<close>: the same outcome (message id, timestamp
  and error), the same requests and the same world afterwards.
\<close>

theorem sendProactiveMessage_sendText:
  "sendProactiveMessage api acct target_to msg s =
   sendText api
     \<lparr>to = target_to, text' = msg, ctx_accountId = aid, replyToId = None, account = acct\<rparr> s"
  by (simp add: sendProactiveMessage_def sendText_def Let_def cong: if_cong)

theorem sendProactiveMessage_sendText_witness:
  "sendProactiveMessage workingClient exampleAccount ''group:G1'' ''hello'' (0, []) =
   sendText workingClient
      \<lparr>to = ''group:G1'', text' = ''hello'', ctx_accountId = None,
       replyToId = None, account = exampleAccount\<rparr> (0, [])
   \<and> invoked (sendProactiveMessage workingClient exampleAccount ''group:G1'' ''hello'' (0, [])) =
       [GetAccessToken ''102146862'' ''s3cret'',
        SendProactiveGroupMessage ''token'' ''G1'' ''hello'']"
  using sendProactiveMessage_sendText
      [of workingClient exampleAccount "''group:G1''" "''hello''" "(0, [])" None]
  by (simp add: run_defs)

section \<open>Session status\<close>

lemma onReady_inv: "connectedImpliesRunning (onReady now status)"
  by (simp add: connectedImpliesRunning_def onReady_def)

lemma onError_inv:
  "connectedImpliesRunning status \<Longrightarrow> connectedImpliesRunning (onError message status)"
  by (simp add: connectedImpliesRunning_def onError_def)

text \<open>Rule induction over the callbacks: every status they write keeps the invariant.\<close>

lemma written_inv: "written status \<Longrightarrow> connectedImpliesRunning status"
proof (induction rule: written.induct)
  case initial
  show ?case by (simp add: connectedImpliesRunning_def defaultRuntime_def)
next
  case (ready status now)
  show ?case by (rule onReady_inv)
next
  case (failure status message)
  from failure.IH show ?case by (rule onError_inv)
qed

text \<open>The snapshot copies the two flags, so it keeps the invariant of its runtime.\<close>

lemma snapshot_inv:
  "connectedImpliesRunning runtime \<Longrightarrow>
   connectedImpliesRunning (buildAccountSnapshot acct (Some runtime))"
  by (cases "connected runtime"; cases "running runtime")
     (auto simp: connectedImpliesRunning_def buildAccountSnapshot_def)

lemma snapshot_absent_inv: "connectedImpliesRunning (buildAccountSnapshot acct None)"
  by (simp add: connectedImpliesRunning_def buildAccountSnapshot_def)

text \<open>
  Claim C9, as amended. Connected implies running holds of the default runtime, of
  every status the \<^verbatim>\<open>onReady\<close> and \<^verbatim>\<open>onError\<close> callbacks write starting from the
  default, and of every snapshot \<^verbatim>\<open>buildAccountSnapshot\<close> builds from an absent runtime
  or from a runtime that itself satisfies the invariant, so in particular from every
  status the callbacks have written.
\<close>

theorem status_invariant:
  "connectedImpliesRunning defaultRuntime
   \<and> (written status \<longrightarrow> connectedImpliesRunning status)
   \<and> (written status \<longrightarrow> connectedImpliesRunning (buildAccountSnapshot acct (Some status)))
   \<and> connectedImpliesRunning (buildAccountSnapshot acct None)
   \<and> (connectedImpliesRunning runtime \<longrightarrow>
        connectedImpliesRunning (buildAccountSnapshot acct (Some runtime)))"
  using written_inv [OF written.initial] written_inv [of status] snapshot_inv snapshot_absent_inv
  by blast

text \<open>A session that became ready and then reported an error: connected and running.\<close>

theorem status_invariant_witness:
  "written (onError ''socket closed'' (onReady 1700000000 defaultRuntime))
   \<and> connected (onError ''socket closed'' (onReady 1700000000 defaultRuntime)) = Some True
   \<and> running (onError ''socket closed'' (onReady 1700000000 defaultRuntime)) = Some True
   \<and> connected (buildAccountSnapshot (Some exampleAccount)
        (Some (onError ''socket closed'' (onReady 1700000000 defaultRuntime)))) = Some True
   \<and> running (buildAccountSnapshot (Some exampleAccount)
        (Some (onError ''socket closed'' (onReady 1700000000 defaultRuntime)))) = Some True"
proof -
  have w: "written (onError ''socket closed'' (onReady 1700000000 defaultRuntime))"
    by (intro written.intros)
  from status_invariant [of "onError ''socket closed'' (onReady 1700000000 defaultRuntime)"
      "Some exampleAccount" defaultRuntime] w
  show ?thesis
    by (simp add: onError_def onReady_def buildAccountSnapshot_def connectedImpliesRunning_def)
qed

text \<open>
  Claim C9 as first stated covers every snapshot \<^verbatim>\<open>buildAccountSnapshot\<close> builds. The
  function copies the flags of the runtime it is given: from a runtime that is
  connected and not running it builds a snapshot that is connected and not running.
\<close>

theorem buildAccountSnapshot_counterexample:
  "connected (buildAccountSnapshot (Some exampleAccount)
      (Some (defaultRuntime\<lparr>connected := Some True\<rparr>))) = Some True
   \<and> running (buildAccountSnapshot (Some exampleAccount)
      (Some (defaultRuntime\<lparr>connected := Some True\<rparr>))) = Some False
   \<and> \<not> connectedImpliesRunning
       (buildAccountSnapshot (Some exampleAccount) (Some (defaultRuntime\<lparr>connected := Some True\<rparr>)))"
  by (simp add: connectedImpliesRunning_def buildAccountSnapshot_def defaultRuntime_def)

end

